theory Spec2Isabelle
  imports Complex_Main "HOL-Library.AList" "HOL-Library.Log_Nat"
begin

section \<open>Python strings\<close>

text \<open>
  A Python \<open>str\<close> is a sequence of Unicode code points, so it is modelled as a list of
  natural numbers. Code points above 255 matter here: \<open>json.loads\<close> can hand back a lone
  surrogate (\<open>U+D800\<close> .. \<open>U+DFFF\<close>), which \<open>sqlite3\<close> later refuses to bind.
  \<open>pys\<close> turns an ASCII literal into such a sequence.
\<close>

type_synonym pystr = "nat list"

definition pys :: "string \<Rightarrow> pystr" where
  "pys s = map of_char s"

text \<open>
  \<open>str.isspace\<close> / the regular expression class \<open>\s\<close> / the characters removed by
  \<open>str.strip()\<close>: CPython's \<open>Py_UNICODE_ISSPACE\<close>, that is U+0009..U+000D, U+001C..U+0020,
  U+0085, U+00A0, U+1680, U+2000..U+200A, U+2028, U+2029, U+202F, U+205F, U+3000.
\<close>

definition isspace :: "nat \<Rightarrow> bool" where
  "isspace c = ((9 \<le> c \<and> c \<le> 13) \<or> (28 \<le> c \<and> c \<le> 32) \<or> c = 133 \<or> c = 160
     \<or> c = 5760 \<or> (8192 \<le> c \<and> c \<le> 8202) \<or> c = 8232 \<or> c = 8233 \<or> c = 8239
     \<or> c = 8287 \<or> c = 12288)"

definition strip :: "pystr \<Rightarrow> pystr" where
  "strip s = rev (dropWhile isspace (rev (dropWhile isspace s)))"

text \<open>\<open>s.replace(a, b)\<close> for one-character \<open>a\<close> and \<open>b\<close>.\<close>

definition replace_char :: "nat \<Rightarrow> nat \<Rightarrow> pystr \<Rightarrow> pystr" where
  "replace_char a b s = map (\<lambda>c. if c = a then b else c) s"

text \<open>The ASCII digits \<open>0\<close> .. \<open>9\<close> and the number a run of them denotes.\<close>

definition isdigit :: "nat \<Rightarrow> bool" where
  "isdigit c = (48 \<le> c \<and> c \<le> 57)"

definition digits_val :: "pystr \<Rightarrow> nat" where
  "digits_val ds = foldl (\<lambda>a c. a * 10 + (c - 48)) 0 ds"

text \<open>\<open>str(n)\<close> for an integer \<open>n\<close>.\<close>

fun nat_digits :: "nat \<Rightarrow> pystr" where
  "nat_digits n = (if n < 10 then [48 + n] else nat_digits (n div 10) @ [48 + n mod 10])"

declare nat_digits.simps [simp del]

definition int_str :: "int \<Rightarrow> pystr" where
  "int_str n = (if n < 0 then 45 # nat_digits (nat (- n)) else nat_digits (nat n))"


section \<open>The JSON decoder used by the genre parser\<close>

text \<open>
  \<open>parse_genres\<close> calls \<open>json.loads\<close> of the standard library. The decoder is modelled
  after \<open>json.decoder\<close> / \<open>json.scanner\<close>: \<open>None\<close> stands for a raised \<open>JSONDecodeError\<close>.
  A float keeps its lexeme (its value is \<open>float\<close> of that text); the constants \<open>NaN\<close>,
  \<open>Infinity\<close> and \<open>-Infinity\<close> are accepted as \<open>json.loads\<close> accepts them. An object keeps
  its pairs in input order. An integer with more digits than \<open>int\<close> accepts makes the call
  raise \<open>ValueError\<close>, which is \<open>None\<close> here as well (\<open>parse_genres\<close> catches both alike).
  Recursion depth and memory of the interpreter are outside the model.
\<close>

datatype json = JNull | JBool bool | JInt int | JFloat pystr | JStr pystr
  | JArr "json list" | JObj "(pystr \<times> json) list"


section \<open>What the scripts take from the platform\<close>

text \<open>
  Four things are properties of the interpreter that runs the scripts: tables of the
  Unicode database, the text of a float, and a setting. They are parameters of the model,
  so that what is proved holds for every choice of them:
  \<^item> \<open>str_lower\<close> is \<open>str.lower\<close>;
  \<^item> \<open>todecimal\<close> is the decimal digit value of a code point (\<open>Py_UNICODE_TODECIMAL\<close>):
    the characters \<open>\d\<close> matches and \<open>int\<close> / \<open>float\<close> accept as digits;
  \<^item> \<open>obj_str\<close> is \<open>str\<close> of a decoded JSON value that is a float, a list or a dict;
  \<^item> \<open>int_max_str_digits\<close> is \<open>sys.get_int_max_str_digits()\<close>: \<open>int\<close> of a string with more
    digits raises \<open>ValueError\<close>; 0 stands for no limit (the default is 4300 from
    Python 3.11 on, and there is no limit before).
\<close>

record platform =
  str_lower :: "pystr \<Rightarrow> pystr"
  todecimal :: "nat \<Rightarrow> nat option"
  obj_str :: "json \<Rightarrow> pystr"
  int_max_str_digits :: nat

text \<open>Whether \<open>int\<close> refuses a string of \<open>n\<close> digits.\<close>

definition too_many_digits :: "platform \<Rightarrow> nat \<Rightarrow> bool" where
  "too_many_digits P n = (0 < int_max_str_digits P \<and> int_max_str_digits P < n)"


section \<open>The JSON decoder: scanning\<close>

definition json_ws :: "nat \<Rightarrow> bool" where
  "json_ws c = (c = 32 \<or> c = 9 \<or> c = 10 \<or> c = 13)"

definition skip_ws :: "pystr \<Rightarrow> pystr" where
  "skip_ws s = dropWhile json_ws s"

definition hexval :: "nat \<Rightarrow> nat option" where
  "hexval c = (if 48 \<le> c \<and> c \<le> 57 then Some (c - 48)
     else if 65 \<le> c \<and> c \<le> 70 then Some (c - 55)
     else if 97 \<le> c \<and> c \<le> 102 then Some (c - 87) else None)"

text \<open>\<open>_decode_uXXXX\<close>: exactly four hexadecimal digits.\<close>

definition decode_uXXXX :: "pystr \<Rightarrow> nat option" where
  "decode_uXXXX s = (case map hexval (take 4 s) of
      [Some a, Some b, Some c, Some d] \<Rightarrow> Some (((a * 16 + b) * 16 + c) * 16 + d)
    | _ \<Rightarrow> None)"

text \<open>The table \<open>BACKSLASH\<close> of one-character escapes.\<close>

definition backslash :: "nat \<Rightarrow> nat option" where
  "backslash e = (if e = 34 then Some 34 else if e = 92 then Some 92 else if e = 47 then Some 47
     else if e = 98 then Some 8 else if e = 102 then Some 12 else if e = 110 then Some 10
     else if e = 114 then Some 13 else if e = 116 then Some 9 else None)"

text \<open>
  One escape, read after the backslash: the character it denotes and how many characters
  of input it takes. A high surrogate followed by an escaped low surrogate is combined;
  a surrogate without its partner is kept as it is (the decoder does not reject it).
\<close>

definition scan_escape :: "pystr \<Rightarrow> (nat \<times> nat) option" where
  "scan_escape r = (case r of
      [] \<Rightarrow> None
    | e # r1 \<Rightarrow>
        if e \<noteq> 117 then map_option (\<lambda>ch. (ch, 1)) (backslash e)
        else (case decode_uXXXX r1 of
            None \<Rightarrow> None
          | Some uni \<Rightarrow>
              let r2 = drop 4 r1 in
              if 55296 \<le> uni \<and> uni \<le> 56319 \<and> take 2 r2 = [92, 117] then
                (case decode_uXXXX (drop 2 r2) of
                   None \<Rightarrow> None
                 | Some uni2 \<Rightarrow>
                     if 56320 \<le> uni2 \<and> uni2 \<le> 57343
                     then Some (65536 + ((uni - 55296) * 1024 + (uni2 - 56320)), 11)
                     else Some (uni, 5))
              else Some (uni, 5)))"

definition consume :: "'a \<Rightarrow> ('a list \<times> pystr) option \<Rightarrow> ('a list \<times> pystr) option" where
  "consume x res = map_option (\<lambda>(xs, r). (x # xs, r)) res"

text \<open>
  \<open>py_scanstring\<close> in strict mode, from the character after the opening quote: the
  decoded string and the input left after the closing quote.
\<close>

function scanstring :: "pystr \<Rightarrow> (pystr \<times> pystr) option" where
  "scanstring [] = None"
| "scanstring (c # r) =
    (if c = 34 then Some ([], r)
     else if c < 32 then None
     else if c \<noteq> 92 then consume c (scanstring r)
     else (case scan_escape r of
        None \<Rightarrow> None
      | Some (ch, n) \<Rightarrow> consume ch (scanstring (drop n r))))"
  by pat_completeness auto
termination
  by (relation "measure length") auto

text \<open>
  \<open>NUMBER_RE\<close>: \<open>(-?(?:0|[1-9][0-9]*))(\.[0-9]+)?([eE][-+]?[0-9]+)?\<close>, matched at the start
  of the input. Without fraction and exponent the lexeme is an \<open>int\<close>.
\<close>

definition number_frac :: "pystr \<Rightarrow> pystr" where
  "number_frac s = (case s of
      [] \<Rightarrow> []
    | p # r \<Rightarrow> if p = 46 \<and> takeWhile isdigit r \<noteq> [] then p # takeWhile isdigit r else [])"

definition number_exp :: "pystr \<Rightarrow> pystr" where
  "number_exp s = (case s of
      [] \<Rightarrow> []
    | e # r \<Rightarrow>
        if e = 101 \<or> e = 69 then
          (let sgn = (case r of [] \<Rightarrow> [] | g # _ \<Rightarrow> if g = 45 \<or> g = 43 then [g] else []);
               ds = takeWhile isdigit (drop (length sgn) r)
           in if ds = [] then [] else e # sgn @ ds)
        else [])"

definition match_number :: "platform \<Rightarrow> pystr \<Rightarrow> (json \<times> pystr) option" where
  "match_number P s =
    (let sgn = (case s of [] \<Rightarrow> [] | c # _ \<Rightarrow> if c = 45 then [c] else []);
         r0 = drop (length sgn) s
     in case r0 of
          [] \<Rightarrow> None
        | d # r1 \<Rightarrow>
            if \<not> isdigit d then None
            else
              let ipart = (if d = 48 then [d] else d # takeWhile isdigit r1);
                  r2 = drop (length ipart) r0;
                  frac = number_frac r2;
                  r3 = drop (length frac) r2;
                  ex = number_exp r3;
                  r4 = drop (length ex) r3
              in if frac = [] \<and> ex = []
                 then (if too_many_digits P (length ipart) then None
                       else Some (JInt (if sgn = [] then int (digits_val ipart)
                                        else - int (digits_val ipart)), r4))
                 else Some (JFloat (sgn @ ipart @ frac @ ex), r4))"

text \<open>The values of \<open>scan_once\<close> that are neither a string, an object nor an array.\<close>

definition scan_atom :: "platform \<Rightarrow> pystr \<Rightarrow> (json \<times> pystr) option" where
  "scan_atom P s =
    (if take 4 s = pys ''null'' then Some (JNull, drop 4 s)
     else if take 4 s = pys ''true'' then Some (JBool True, drop 4 s)
     else if take 5 s = pys ''false'' then Some (JBool False, drop 5 s)
     else (case match_number P s of
        Some res \<Rightarrow> Some res
      | None \<Rightarrow>
          if take 3 s = pys ''NaN'' then Some (JFloat (pys ''NaN''), drop 3 s)
          else if take 8 s = pys ''Infinity'' then Some (JFloat (pys ''Infinity''), drop 8 s)
          else if take 9 s = pys ''-Infinity'' then Some (JFloat (pys ''-Infinity''), drop 9 s)
          else None))"

lemma skip_ws_length: "length (skip_ws s) \<le> length s"
  by (simp add: skip_ws_def length_dropWhile_le)

lemma skip_ws_Cons: "skip_ws s = d # r \<Longrightarrow> length r < length s"
  using skip_ws_length [of s] by simp

lemma scanstring_shorter: "scanstring s = Some (x, r) \<Longrightarrow> length r < length s"
proof (induction s arbitrary: x r rule: scanstring.induct)
  case 1
  then show ?case by simp
next
  case (2 c r0)
  show ?case
  proof (cases "c = 34")
    case True
    with 2 show ?thesis by simp
  next
    case q: False
    show ?thesis
    proof (cases "c = 92")
      case False
      with q 2 show ?thesis
        by (auto simp: consume_def split: if_splits)
    next
      case True
      with q 2 show ?thesis
        by (auto simp: consume_def split: if_splits option.splits) fastforce
    qed
  qed
qed

text \<open>
  \<open>scan_once\<close>, \<open>JSONArray\<close> (from the first value on) and \<open>JSONObject\<close> (from the
  character after the opening quote of a key on). The comparisons of lengths make the
  recursion visibly well-founded; \<open>scan_shorter\<close> below shows that they always hold.
\<close>

function scan_once :: "platform \<Rightarrow> pystr \<Rightarrow> (json \<times> pystr) option"
  and scan_array :: "platform \<Rightarrow> pystr \<Rightarrow> (json list \<times> pystr) option"
  and scan_object :: "platform \<Rightarrow> pystr \<Rightarrow> ((pystr \<times> json) list \<times> pystr) option"
where
  "scan_once P s = (case s of
      [] \<Rightarrow> None
    | c # r \<Rightarrow>
        if c = 34 then map_option (\<lambda>(x, r'). (JStr x, r')) (scanstring r)
        else if c = 123 then
          (case skip_ws r of
             [] \<Rightarrow> None
           | d # r1 \<Rightarrow>
               if d = 125 then Some (JObj [], r1)
               else if d = 34 then map_option (\<lambda>(ps, r'). (JObj ps, r')) (scan_object P r1)
               else None)
        else if c = 91 then
          (case skip_ws r of
             [] \<Rightarrow> None
           | d # r1 \<Rightarrow>
               if d = 93 then Some (JArr [], r1)
               else map_option (\<lambda>(vs, r'). (JArr vs, r')) (scan_array P (d # r1)))
        else scan_atom P s)"
| "scan_array P s = (case scan_once P s of
      None \<Rightarrow> None
    | Some (v, r) \<Rightarrow>
        if length r < length s then
          (case skip_ws r of
             [] \<Rightarrow> None
           | d # r1 \<Rightarrow>
               if d = 93 then Some ([v], r1)
               else if d = 44 then consume v (scan_array P (skip_ws r1))
               else None)
        else None)"
| "scan_object P s = (case scanstring s of
      None \<Rightarrow> None
    | Some (key, r) \<Rightarrow>
        (case skip_ws r of
           [] \<Rightarrow> None
         | c # r1 \<Rightarrow>
             if c \<noteq> 58 then None
             else (case scan_once P (skip_ws r1) of
                None \<Rightarrow> None
              | Some (v, r2) \<Rightarrow>
                  if length r2 < length s then
                    (case skip_ws r2 of
                       [] \<Rightarrow> None
                     | d # r3 \<Rightarrow>
                         if d = 125 then Some ([(key, v)], r3)
                         else if d = 44 then
                           (case skip_ws r3 of
                              [] \<Rightarrow> None
                            | q # r4 \<Rightarrow>
                                if q = 34 then consume (key, v) (scan_object P r4) else None)
                         else None)
                  else None)))"
  by pat_completeness auto
termination
proof (relation "measure (\<lambda>x. case x of
    Inl (P, s) \<Rightarrow> 2 * length s
  | Inr (Inl (P, s)) \<Rightarrow> 2 * length s + 1
  | Inr (Inr (P, s)) \<Rightarrow> 2 * length s + 1)", goal_cases)
  case 1
  show ?case by simp
next
  case (2 P s c r d r1)
  then show ?case using skip_ws_Cons [of r d r1] by simp
next
  case (3 P s c r d r1)
  then show ?case using skip_ws_length [of r] by simp
next
  case (4 P s)
  show ?case by simp
next
  case (5 P s p v r d r1)
  then show ?case using skip_ws_Cons [of r d r1] skip_ws_length [of r1] by simp
next
  case (6 P s p key r c r1)
  then show ?case
    using scanstring_shorter [of s key r] skip_ws_Cons [of r c r1] skip_ws_length [of r1]
    by simp
next
  case (7 P s p key r c r1 p2 v r2 d r3 q r4)
  then show ?case using skip_ws_Cons [of r2 d r3] skip_ws_Cons [of r3 q r4] by simp
qed

declare scan_once.simps [simp del] scan_array.simps [simp del] scan_object.simps [simp del]

text \<open>
  Every value that is read takes input, so the comparisons of lengths in \<open>scan_array\<close>
  and \<open>scan_object\<close> hold whenever they are reached: they never turn a value that
  \<open>json.loads\<close> decodes into a failure.
\<close>

lemma match_number_shorter: "match_number P s = Some (v, r) \<Longrightarrow> length r < length s"
  by (auto simp: match_number_def Let_def split: list.splits if_splits)

lemma scan_atom_shorter: "scan_atom P s = Some (v, r) \<Longrightarrow> length r < length s"
proof (cases s)
  case Nil
  then show "scan_atom P s = Some (v, r) \<Longrightarrow> ?thesis"
    by (simp add: scan_atom_def pys_def match_number_def)
next
  case (Cons a list)
  then show "scan_atom P s = Some (v, r) \<Longrightarrow> ?thesis"
    by (auto simp: scan_atom_def split: if_splits option.splits dest: match_number_shorter)
qed

lemma scan_shorter:
  "(\<forall>v r. scan_once P s = Some (v, r) \<longrightarrow> length r < length s)"
  "(\<forall>vs r. scan_array P1 s1 = Some (vs, r) \<longrightarrow> length r < length s1)"
  "(\<forall>ps r. scan_object P2 s2 = Some (ps, r) \<longrightarrow> length r < length s2)"
proof (induction P s and P1 s1 and P2 s2 rule: scan_once_scan_array_scan_object.induct)
  case (1 P s)
  show ?case
  proof (intro allI impI)
    fix v r assume a: "scan_once P s = Some (v, r)"
    show "length r < length s"
    proof (cases s)
      case Nil
      with a show ?thesis by (simp add: scan_once.simps)
    next
      case (Cons c r0)
      consider (str) "c = 34" | (obj) "c \<noteq> 34" "c = 123" | (arr) "c \<noteq> 34" "c \<noteq> 123" "c = 91"
        | (atom) "c \<noteq> 34" "c \<noteq> 123" "c \<noteq> 91" by blast
      then show ?thesis
      proof cases
        case str
        with a Cons show ?thesis
          by (auto simp: scan_once.simps dest: scanstring_shorter)
      next
        case obj
        show ?thesis
        proof (cases "skip_ws r0")
          case Nil
          with a Cons obj show ?thesis by (simp add: scan_once.simps)
        next
          case (Cons d r1)
          note sk = skip_ws_Cons [OF Cons]
          show ?thesis
          proof (cases "d = 125")
            case True
            with a \<open>s = c # r0\<close> obj Cons sk show ?thesis by (auto simp: scan_once.simps)
          next
            case False
            with a \<open>s = c # r0\<close> obj Cons have d: "d = 34"
              by (auto simp: scan_once.simps split: if_splits)
            from "1.IH"(1) [OF \<open>s = c # r0\<close> obj(1) _ Cons False d] obj
            have ih: "\<forall>ps r. scan_object P r1 = Some (ps, r) \<longrightarrow> length r < length r1" by simp
            from a \<open>s = c # r0\<close> obj Cons False d obtain ps where "scan_object P r1 = Some (ps, r)"
              by (auto simp: scan_once.simps)
            with ih sk \<open>s = c # r0\<close> show ?thesis by fastforce
          qed
        qed
      next
        case arr
        show ?thesis
        proof (cases "skip_ws r0")
          case Nil
          with a Cons arr show ?thesis by (simp add: scan_once.simps)
        next
          case (Cons d r1)
          note sk = skip_ws_length [of r0]
          show ?thesis
          proof (cases "d = 93")
            case True
            with a \<open>s = c # r0\<close> arr Cons skip_ws_Cons [OF Cons] show ?thesis
              by (auto simp: scan_once.simps)
          next
            case False
            from "1.IH"(2) [OF \<open>s = c # r0\<close> arr(1) arr(2) _ Cons False] arr
            have ih: "\<forall>vs r. scan_array P (d # r1) = Some (vs, r) \<longrightarrow> length r < length (d # r1)"
              by simp
            from a \<open>s = c # r0\<close> arr Cons False obtain vs where "scan_array P (d # r1) = Some (vs, r)"
              by (auto simp: scan_once.simps)
            with ih sk Cons \<open>s = c # r0\<close> show ?thesis by fastforce
          qed
        qed
      next
        case atom
        with a Cons show ?thesis
          by (auto simp: scan_once.simps dest: scan_atom_shorter)
      qed
    qed
  qed
next
  case (2 P s)
  show ?case
  proof (intro allI impI)
    fix vs r assume a: "scan_array P s = Some (vs, r)"
    then obtain v r1 where so: "scan_once P s = Some (v, r1)" and lt: "length r1 < length s"
      by (subst (asm) scan_array.simps) (auto split: option.splits if_splits)
    show "length r < length s"
    proof (cases "skip_ws r1")
      case Nil
      with a so lt show ?thesis by (subst (asm) scan_array.simps) simp
    next
      case (Cons d r2)
      note sk = skip_ws_Cons [OF Cons]
      show ?thesis
      proof (cases "d = 93")
        case True
        with a so lt Cons sk show ?thesis by (subst (asm) scan_array.simps) auto
      next
        case False
        with a so lt Cons have d: "d = 44"
          by (subst (asm) scan_array.simps) (auto split: if_splits)
        have ih: "\<forall>vs r. scan_array P (skip_ws r2) = Some (vs, r) \<longrightarrow> length r < length (skip_ws r2)"
          using "2.IH"(2) [OF so _ lt Cons False d] by simp
        from a so lt Cons False d obtain vs' where "scan_array P (skip_ws r2) = Some (vs', r)"
          by (subst (asm) scan_array.simps) (auto simp: consume_def)
        with ih sk lt skip_ws_length [of r2] show ?thesis by fastforce
      qed
    qed
  qed
next
  case (3 P s)
  show ?case
  proof (intro allI impI)
    fix ps r assume a: "scan_object P s = Some (ps, r)"
    then obtain key r0 where ss: "scanstring s = Some (key, r0)"
      by (subst (asm) scan_object.simps) (auto split: option.splits)
    from a ss obtain c r1 where sk0: "skip_ws r0 = c # r1" and c: "c = 58"
      by (subst (asm) scan_object.simps) (auto split: list.splits if_splits)
    from a ss sk0 c obtain v r2 where so: "scan_once P (skip_ws r1) = Some (v, r2)"
        and lt: "length r2 < length s"
      by (subst (asm) scan_object.simps) (auto split: option.splits if_splits)
    show "length r < length s"
    proof (cases "skip_ws r2")
      case Nil
      with a ss sk0 c so lt show ?thesis by (subst (asm) scan_object.simps) simp
    next
      case (Cons d r3)
      note sk = skip_ws_Cons [OF Cons]
      show ?thesis
      proof (cases "d = 125")
        case True
        with a ss sk0 c so lt Cons sk show ?thesis by (subst (asm) scan_object.simps) auto
      next
        case False
        with a ss sk0 c so lt Cons have d: "d = 44"
          by (subst (asm) scan_object.simps) (auto split: if_splits)
        from a ss sk0 c so lt Cons False d obtain q r4 where sk4: "skip_ws r3 = q # r4" and q: "q = 34"
          by (subst (asm) scan_object.simps) (auto split: list.splits if_splits)
        have ih: "\<forall>ps r. scan_object P r4 = Some (ps, r) \<longrightarrow> length r < length r4"
          using "3.IH"(2) [OF ss _ sk0 _ so _ lt Cons False d sk4 q] c by simp
        from a ss sk0 c so lt Cons False d sk4 q obtain ps' where "scan_object P r4 = Some (ps', r)"
          by (subst (asm) scan_object.simps) (auto simp: consume_def)
        with ih sk lt skip_ws_Cons [OF sk4] show ?thesis by fastforce
      qed
    qed
  qed
qed

text \<open>
  \<open>json.loads\<close> on a \<open>str\<close>: a leading byte order mark is refused, the value may be
  surrounded by JSON whitespace, and anything after it is "extra data".
\<close>

definition json_loads :: "platform \<Rightarrow> pystr \<Rightarrow> json option" where
  "json_loads P s =
    (if take 1 s = [65279] then None
     else case scan_once P (skip_ws s) of
        None \<Rightarrow> None
      | Some (v, r) \<Rightarrow> if skip_ws r = [] then Some v else None)"



section \<open>Converting decoded values to text\<close>

text \<open>\<open>str(x)\<close> for a value that \<open>json.loads\<close> returned.\<close>

definition py_str :: "platform \<Rightarrow> json \<Rightarrow> pystr" where
  "py_str P x = (case x of
      JStr s \<Rightarrow> s
    | JNull \<Rightarrow> pys ''None''
    | JBool b \<Rightarrow> (if b then pys ''True'' else pys ''False'')
    | JInt n \<Rightarrow> int_str n
    | _ \<Rightarrow> obj_str P x)"


section \<open>import.py: parsing helpers\<close>

text \<open>The character class \<open>[A-Za-z0-9\s\-]\<close> of the fallback pattern.\<close>

definition genre_char :: "nat \<Rightarrow> bool" where
  "genre_char c = ((65 \<le> c \<and> c \<le> 90) \<or> (97 \<le> c \<and> c \<le> 122) \<or> (48 \<le> c \<and> c \<le> 57)
     \<or> isspace c \<or> c = 45)"

text \<open>\<open>re.findall\<close> of \<open>[...]+\<close>: the maximal runs of characters of the class, left to right.\<close>

function findall_runs :: "(nat \<Rightarrow> bool) \<Rightarrow> pystr \<Rightarrow> pystr list" where
  "findall_runs p [] = []"
| "findall_runs p (c # r) =
    (if p c then (c # takeWhile p r) # findall_runs p (dropWhile p r) else findall_runs p r)"
  by pat_completeness auto
termination
  by (relation "measure (\<lambda>(p, s). length s)") (auto simp: length_dropWhile_le less_Suc_eq_le)

text \<open>
  \<open>parse_genres\<close> (import.py, lines 28-55). The bare \<open>except\<close> around \<open>json.loads\<close> turns
  every decoding error into the fallback; a decoded value that is not a list falls through
  to the fallback as well.
\<close>

definition parse_genres :: "platform \<Rightarrow> pystr \<Rightarrow> pystr list" where
  "parse_genres P raw =
    (if raw = [] then []
     else
       let s = strip (replace_char 10 32 raw) in
       if s = [] \<or> s = pys ''[]'' then []
       else
         let s = (if hd s = 34 \<and> last s = 34 then strip (butlast (tl s)) else s);
             s_json = replace_char 39 34 s
         in case json_loads P s_json of
              Some (JArr val) \<Rightarrow> filter (\<lambda>x. x \<noteq> []) (map (\<lambda>x. strip (py_str P x)) val)
            | _ \<Rightarrow> filter (\<lambda>f. f \<noteq> []) (map strip (findall_runs genre_char s)))"


section \<open>Properties of the genre parser\<close>

lemmas json_eval = pys_def isspace_def strip_def replace_char_def isdigit_def digits_val_def
  too_many_digits_def json_ws_def skip_ws_def hexval_def decode_uXXXX_def backslash_def scan_escape_def consume_def
  number_frac_def number_exp_def match_number_def scan_atom_def scan_once.simps scan_array.simps
  scan_object.simps json_loads_def py_str_def genre_char_def parse_genres_def Let_def

lemma last_dropWhile_nonempty: "dropWhile P xs \<noteq> [] \<Longrightarrow> last (dropWhile P xs) = last xs"
  by (induction xs) (auto split: if_splits)

lemma dropWhile_self: "xs = [] \<or> \<not> P (hd xs) \<Longrightarrow> dropWhile P xs = xs"
  by (cases xs) auto

lemma strip_idem: "strip (strip s) = strip s"
proof -
  define a where "a = dropWhile isspace s"
  define b where "b = dropWhile isspace (rev a)"
  have b_last: "b = [] \<or> \<not> isspace (last b)"
  proof (cases "b = []")
    case True
    then show ?thesis by simp
  next
    case False
    then have "last b = last (rev a)"
      unfolding b_def by (rule last_dropWhile_nonempty)
    moreover have "a \<noteq> []" using False by (auto simp: b_def)
    ultimately have "last b = hd a" by (simp add: last_rev)
    moreover have "\<not> isspace (hd a)"
      using \<open>a \<noteq> []\<close> unfolding a_def by (rule hd_dropWhile)
    ultimately show ?thesis by simp
  qed
  have "dropWhile isspace (rev b) = rev b"
    by (rule dropWhile_self) (use b_last in \<open>auto simp: hd_rev\<close>)
  moreover have "dropWhile isspace b = b"
    unfolding b_def by simp
  ultimately show ?thesis
    by (simp add: strip_def a_def [symmetric] b_def [symmetric])
qed

text \<open>
  Claim C6. The genre parser on the examples of the specification: the cell
  \<open>['Action', 'Comedy']\<close> gives the two names (through the JSON decoder, after the single
  quotes, code point 39, became double quotes), the unquoted cell \<open>Action, Comedy\<close> gives
  the same two names (through the fallback pattern), and the empty cell and the cell \<open>[]\<close>
  give the empty sequence. This holds on every platform.
\<close>

theorem parse_genres_examples:
  "parse_genres P (pys ''['' @ [39] @ pys ''Action'' @ [39] @ pys '', '' @ [39] @ pys ''Comedy''
       @ [39] @ pys '']'') = [pys ''Action'', pys ''Comedy'']
   \<and> parse_genres P (pys ''Action, Comedy'') = [pys ''Action'', pys ''Comedy'']
   \<and> parse_genres P [] = []
   \<and> parse_genres P (pys ''[]'') = []"
  by (simp add: json_eval)

text \<open>
  Claim C10. Whatever the input cell and the platform, every element that the genre
  parser returns is a non-empty string and is its own whitespace-trimmed form; this covers
  the branch of the decoded list and the branch of the fallback pattern.
\<close>

theorem parse_genres_clean:
  "x \<in> set (parse_genres P raw) \<Longrightarrow> x \<noteq> [] \<and> strip x = x"
  by (auto simp: parse_genres_def Let_def strip_idem split: if_splits option.splits json.splits)

theorem parse_genres_clean_witness:
  "pys ''Comedy'' \<in> set (parse_genres \<lparr>str_lower = id, todecimal = Map.empty, obj_str = (\<lambda>x. []), int_max_str_digits = 0\<rparr>
       (pys ''Action, Comedy''))
   \<and> pys ''Comedy'' \<noteq> [] \<and> strip (pys ''Comedy'') = pys ''Comedy''"
proof -
  have h: "pys ''Comedy'' \<in> set (parse_genres
      \<lparr>str_lower = id, todecimal = Map.empty, obj_str = (\<lambda>x. []), int_max_str_digits = 0\<rparr> (pys ''Action, Comedy''))"
    by (simp add: json_eval)
  from parse_genres_clean [OF h] h show ?thesis by simp
qed


section \<open>Floats and integers of the interpreter\<close>

text \<open>
  A Python \<open>float\<close> is a binary64 value: a rational number, an infinity or a NaN (the sign
  of zero is not kept). \<open>binary64\<close> rounds a rational to the nearest representable value,
  ties to even, as the correctly rounded \<open>float(str)\<close> does; a magnitude that rounds to
  \<open>2^1024\<close> or more overflows to an infinity. Integers up to \<open>2^53\<close> are representable, so
  the first branch of \<open>binary64\<close> is the value of the second one there.
\<close>

datatype pyfloat = Finite rat | PInf | NInf | NaN

definition round_half_even :: "rat \<Rightarrow> int" where
  "round_half_even x =
    (let f = \<lfloor>x\<rfloor>; d = x - of_int f
     in if d < 1 / 2 then f else if 1 / 2 < d then f + 1 else if even f then f else f + 1)"

definition floor_log2 :: "rat \<Rightarrow> int" where
  "floor_log2 a =
    (let k = bitlen (fst (quotient_of a)) - bitlen (snd (quotient_of a))
     in if power_int 2 k \<le> a then k else k - 1)"

definition binary64 :: "rat \<Rightarrow> pyfloat" where
  "binary64 v =
    (if v = of_int \<lfloor>v\<rfloor> \<and> \<bar>v\<bar> \<le> 2 ^ 53 then Finite v
     else
       let a = \<bar>v\<bar>;
           e = max (floor_log2 a) (- 1022);
           q = power_int 2 (e - 52);
           r = of_int (round_half_even (a / q)) * q
       in if 2 ^ 1024 \<le> r then (if v < 0 then NInf else PInf)
          else Finite (if v < 0 then - r else r))"

text \<open>
  The decimal digit value of a code point: fixed for ASCII, the platform's table beyond.
\<close>

definition decimal_value :: "platform \<Rightarrow> nat \<Rightarrow> nat option" where
  "decimal_value P c =
    (if c < 128 then (if isdigit c then Some (c - 48) else None) else todecimal P c)"

text \<open>
  \<open>float(s)\<close> for a \<open>str\<close>, after \<open>PyFloat_FromString\<close>: non-ASCII whitespace becomes a
  space and non-ASCII decimal digits become ASCII digits (the text is cut with a \<open>?\<close> at
  the first other non-ASCII character); underscores are removed where they stand between
  two digits; ASCII whitespace is stripped; what is left must be a decimal literal or one
  of \<open>inf\<close>, \<open>infinity\<close>, \<open>nan\<close> with an optional sign. \<open>None\<close> stands for \<open>ValueError\<close>.
\<close>

fun to_ascii :: "platform \<Rightarrow> pystr \<Rightarrow> pystr" where
  "to_ascii P [] = []"
| "to_ascii P (c # r) =
    (if c < 128 then c # to_ascii P r
     else if isspace c then 32 # to_ascii P r
     else (case decimal_value P c of
        Some d \<Rightarrow> (48 + d) # to_ascii P r
      | None \<Rightarrow> [63]))"

definition c_isspace :: "nat \<Rightarrow> bool" where
  "c_isspace c = ((9 \<le> c \<and> c \<le> 13) \<or> c = 32)"

fun strip_underscores :: "nat \<Rightarrow> pystr \<Rightarrow> pystr option" where
  "strip_underscores prev [] = (if prev = 95 then None else Some [])"
| "strip_underscores prev (c # r) =
    (if c = 95 then
       (if isdigit prev then strip_underscores c r else None)
     else if prev = 95 \<and> \<not> isdigit c then None
     else map_option ((#) c) (strip_underscores c r))"

definition ascii_lower :: "pystr \<Rightarrow> pystr" where
  "ascii_lower s = map (\<lambda>c. if 65 \<le> c \<and> c \<le> 90 then c + 32 else c) s"

definition parse_inf_or_nan :: "pystr \<Rightarrow> pyfloat option" where
  "parse_inf_or_nan s =
    (let neg = (take 1 s = [45]);
         r = (if take 1 s = [45] \<or> take 1 s = [43] then drop 1 s else s);
         l = ascii_lower r
     in if l = pys ''inf'' \<or> l = pys ''infinity'' then Some (if neg then NInf else PInf)
        else if l = pys ''nan'' then Some NaN
        else None)"

definition exponent_val :: "pystr \<Rightarrow> int" where
  "exponent_val ex = (case ex of
      _ # g # ds \<Rightarrow>
        if g = 45 then - int (digits_val ds)
        else if g = 43 then int (digits_val ds)
        else int (digits_val (g # ds))
    | _ \<Rightarrow> 0)"

definition parse_decimal :: "pystr \<Rightarrow> pyfloat option" where
  "parse_decimal s =
    (let neg = (take 1 s = [45]);
         r0 = (if take 1 s = [45] \<or> take 1 s = [43] then drop 1 s else s);
         ip = takeWhile isdigit r0;
         r1 = drop (length ip) r0;
         dot = (take 1 r1 = [46]);
         fp = (if dot then takeWhile isdigit (drop 1 r1) else []);
         r2 = (if dot then drop (1 + length fp) r1 else r1);
         ex = number_exp r2;
         r3 = drop (length ex) r2
     in if ip @ fp = [] \<or> r3 \<noteq> [] then None
        else
          let v = of_int (int (digits_val (ip @ fp)))
                    * power_int 10 (exponent_val ex - int (length fp))
          in Some (binary64 (if neg then - v else v)))"

definition py_float :: "platform \<Rightarrow> pystr \<Rightarrow> pyfloat option" where
  "py_float P raw =
    (case (if 95 \<in> set (to_ascii P raw) then strip_underscores 0 (to_ascii P raw)
           else Some (to_ascii P raw)) of
       None \<Rightarrow> None
     | Some t \<Rightarrow>
         let s = rev (dropWhile c_isspace (rev (dropWhile c_isspace t)))
         in (case parse_decimal s of
               Some x \<Rightarrow> Some x
             | None \<Rightarrow> parse_inf_or_nan s))"

text \<open>The exceptions that the model tells apart.\<close>

datatype exn = FileNotFoundError | PermissionError | TypeError | ValueError | OverflowError
  | UnicodeEncodeError | IntegrityError

text \<open>\<open>int(x)\<close> for a float: truncation towards zero.\<close>

definition py_int :: "pyfloat \<Rightarrow> exn + int" where
  "py_int x = (case x of
      Finite r \<Rightarrow> Inr (if 0 \<le> r then \<lfloor>r\<rfloor> else \<lceil>r\<rceil>)
    | NaN \<Rightarrow> Inl ValueError
    | _ \<Rightarrow> Inl OverflowError)"

text \<open>\<open>int(float(raw))\<close> under a bare \<open>except\<close>: \<open>None\<close> when either call raises.\<close>

definition int_of_float_str :: "platform \<Rightarrow> pystr \<Rightarrow> int option" where
  "int_of_float_str P raw = (case py_float P raw of
      None \<Rightarrow> None
    | Some x \<Rightarrow> (case py_int x of Inl _ \<Rightarrow> None | Inr n \<Rightarrow> Some n))"

text \<open>
  \<open>re.search(r"\d+", s)\<close>: the first maximal run of decimal digits (empty when there is
  none), and \<open>int\<close> of such a run.
\<close>

definition is_decimal :: "platform \<Rightarrow> nat \<Rightarrow> bool" where
  "is_decimal P c = (decimal_value P c \<noteq> None)"

definition first_digit_run :: "platform \<Rightarrow> pystr \<Rightarrow> pystr" where
  "first_digit_run P s = takeWhile (is_decimal P) (dropWhile (\<lambda>c. \<not> is_decimal P c) s)"

definition int_of_digits :: "platform \<Rightarrow> pystr \<Rightarrow> int" where
  "int_of_digits P ds =
    int (foldl (\<lambda>a c. a * 10 + (case decimal_value P c of Some d \<Rightarrow> d | None \<Rightarrow> 0)) 0 ds)"

text \<open>
  \<open>parse_episodes\<close> (import.py, lines 59-66). The \<open>int\<close> of line 66 stands inside the
  \<open>except\<close> handler, so its \<open>ValueError\<close> for a run of too many digits leaves the function.
\<close>

definition parse_episodes :: "platform \<Rightarrow> pystr \<Rightarrow> exn + int option" where
  "parse_episodes P raw =
    (if raw = [] then Inr None
     else (case int_of_float_str P raw of
        Some n \<Rightarrow> Inr (Some n)
      | None \<Rightarrow>
          (let m = first_digit_run P raw
           in if m = [] then Inr None
              else if too_many_digits P (length m) then Inl ValueError
              else Inr (Some (int_of_digits P m)))))"

text \<open>\<open>parse_score\<close> (lines 69-75).\<close>

definition parse_score :: "platform \<Rightarrow> pystr \<Rightarrow> pyfloat option" where
  "parse_score P raw = (if raw = [] then None else py_float P raw)"


section \<open>import.py: the database\<close>

text \<open>
  The three tables that \<open>create_schema\<close> creates, with the counters that SQLite keeps for
  the \<open>AUTOINCREMENT\<close> keys. A row of \<open>Anime\<close> has the columns of the \<open>CREATE TABLE\<close>
  statement; \<open>Genres\<close> holds \<open>(genre_id, name)\<close> and \<open>AnimeGenres\<close> holds
  \<open>(anime_id, genre_id)\<close>. Rows are kept in insertion order.
\<close>

record anime_row =
  a_id :: int
  a_mal_id :: int
  a_image :: pystr
  a_title :: pystr
  a_release_date :: pystr
  a_synopsis :: pystr
  a_score :: "pyfloat option"
  a_episodes :: "int option"
  a_studio :: pystr
  a_theme :: pystr

record database =
  Anime :: "anime_row list"
  Genres :: "(int \<times> pystr) list"
  AnimeGenres :: "(int \<times> int) list"
  anime_seq :: int
  genre_seq :: int

text \<open>
  \<open>create_schema\<close> (lines 80-113): the three tables are dropped and created again, so
  whatever the store held in them before is gone, and the key counters start over.
\<close>

definition create_schema :: "database \<Rightarrow> database" where
  "create_schema db = \<lparr>Anime = [], Genres = [], AnimeGenres = [], anime_seq = 0, genre_seq = 0\<rparr>"

text \<open>
  Binding a parameter: \<open>sqlite3\<close> raises \<open>OverflowError\<close> for an \<open>int\<close> outside the signed
  64-bit range and \<open>UnicodeEncodeError\<close> for a \<open>str\<close> with a surrogate code point, which
  has no UTF-8 encoding. The parameters are bound in order; the first failure is raised
  and the statement does not run. A NaN is stored as \<open>NULL\<close>.
\<close>

definition check_int :: "int \<Rightarrow> exn option" where
  "check_int n = (if - (2 ^ 63) \<le> n \<and> n < 2 ^ 63 then None else Some OverflowError)"

definition check_text :: "pystr \<Rightarrow> exn option" where
  "check_text s =
    (if list_ex (\<lambda>c. 55296 \<le> c \<and> c \<le> 57343) s then Some UnicodeEncodeError else None)"

definition first_error :: "exn option list \<Rightarrow> exn option" where
  "first_error es = (case List.map_filter id es of [] \<Rightarrow> None | e # _ \<Rightarrow> Some e)"

definition store_real :: "pyfloat option \<Rightarrow> pyfloat option" where
  "store_real x = (case x of Some NaN \<Rightarrow> None | _ \<Rightarrow> x)"

text \<open>
  \<open>insert_anime_sql\<close>: the new row gets the next key. The result is the store after the
  statement; \<open>cur.lastrowid\<close> is then its \<open>anime_seq\<close>.
\<close>

definition insert_anime :: "database \<Rightarrow> anime_row \<Rightarrow> exn + database" where
  "insert_anime db r =
    (case first_error [check_int (a_mal_id r), check_text (a_image r), check_text (a_title r),
        check_text (a_release_date r), check_text (a_synopsis r),
        (case a_episodes r of None \<Rightarrow> None | Some n \<Rightarrow> check_int n),
        check_text (a_studio r), check_text (a_theme r)] of
       Some e \<Rightarrow> Inl e
     | None \<Rightarrow>
         Inr (db\<lparr>Anime := Anime db @ [r\<lparr>a_id := anime_seq db + 1, a_score := store_real (a_score r)\<rparr>],
                 anime_seq := anime_seq db + 1\<rparr>))"

text \<open>
  \<open>insert_genre_sql\<close>: \<open>INSERT OR IGNORE\<close> under \<open>name TEXT UNIQUE\<close>. SQLite allots the
  next key before it finds the conflict, and records it in the counter of the
  \<open>AUTOINCREMENT\<close> column also when the row is then ignored: an ignored insert leaves the
  rows as they are and uses up one key.
\<close>

definition insert_genre :: "database \<Rightarrow> pystr \<Rightarrow> exn + database" where
  "insert_genre db name =
    (case check_text name of
       Some e \<Rightarrow> Inl e
     | None \<Rightarrow>
         Inr (if name \<in> set (map snd (Genres db)) then db\<lparr>genre_seq := genre_seq db + 1\<rparr>
              else db\<lparr>Genres := Genres db @ [(genre_seq db + 1, name)],
                      genre_seq := genre_seq db + 1\<rparr>))"

text \<open>\<open>select_genre_sql\<close> followed by \<open>fetchone\<close>: the key of the first row with the name.\<close>

definition select_genre :: "database \<Rightarrow> pystr \<Rightarrow> exn + int option" where
  "select_genre db name =
    (case check_text name of
       Some e \<Rightarrow> Inl e
     | None \<Rightarrow> Inr (map_option fst (find (\<lambda>g. snd g = name) (Genres db))))"

text \<open>
  \<open>insert_link_sql\<close>: \<open>INSERT OR IGNORE\<close> under \<open>PRIMARY KEY (anime_id, genre_id)\<close>; a pair
  that is already there is ignored, a new pair must reference existing rows
  (\<open>PRAGMA foreign_keys = ON\<close>).
\<close>

definition insert_link :: "database \<Rightarrow> int \<Rightarrow> int \<Rightarrow> exn + database" where
  "insert_link db aid gid =
    (case first_error [check_int aid, check_int gid] of
       Some e \<Rightarrow> Inl e
     | None \<Rightarrow>
         if (aid, gid) \<in> set (AnimeGenres db) then Inr db
         else if aid \<in> set (map a_id (Anime db)) \<and> gid \<in> set (map fst (Genres db))
         then Inr (db\<lparr>AnimeGenres := AnimeGenres db @ [(aid, gid)]\<rparr>)
         else Inl IntegrityError)"


section \<open>import.py: the import driver\<close>

text \<open>
  The input is what \<open>csv.reader\<close> yields for the file: a list of records, each a list of
  fields; or the exception that opening the file raises. \<open>csv.DictReader\<close> takes the first
  record as \<open>fieldnames\<close> (there is none in an empty file), skips empty records, and turns
  a record into a dict: the fields by name, a later column of the same name winning, and
  \<open>None\<close> for the names a short record has no field for.
\<close>

datatype csv_source = Unreadable exn | Readable "pystr list list"

type_synonym row_dict = "(pystr \<times> pystr option) list"

definition dict_row :: "pystr list \<Rightarrow> pystr list \<Rightarrow> row_dict" where
  "dict_row fieldnames rec =
    fold (\<lambda>k d. AList.update k None d) (drop (length rec) fieldnames)
      (fold (\<lambda>(k, v) d. AList.update k (Some v) d) (zip fieldnames rec) [])"

text \<open>\<open>field_map\<close> (line 143): normalised header to header, for the non-empty headers.\<close>

definition field_map :: "platform \<Rightarrow> pystr list \<Rightarrow> (pystr \<times> pystr) list" where
  "field_map P fieldnames =
    fold (\<lambda>h m. AList.update (str_lower P (strip h)) h m) (filter (\<lambda>h. h \<noteq> []) fieldnames) []"

text \<open>\<open>g\<close> (lines 149-154): the cell of the first of the possible keys that is a column.\<close>

fun g :: "platform \<Rightarrow> (pystr \<times> pystr) list \<Rightarrow> row_dict \<Rightarrow> pystr list \<Rightarrow> pystr" where
  "g P fm row [] = []"
| "g P fm row (key # keys) =
    (case map_of fm (str_lower P key) of
       None \<Rightarrow> g P fm row keys
     | Some k \<Rightarrow>
         if k \<noteq> [] then (case map_of row k of Some (Some v) \<Rightarrow> v | _ \<Rightarrow> [])
         else g P fm row keys)"

text \<open>What the script prints.\<close>

datatype message = PrintCsv pystr | PrintDb pystr | DetectedColumns | Column pystr
  | Inserted nat | RowSkipped nat exn | ImportComplete | RowsInAnime nat

text \<open>
  The connection: the committed store, which is what survives the run, and the store as
  the open transaction sees it. \<open>conn.commit()\<close> makes the second the first.
\<close>

record connection =
  committed :: database
  working :: database

definition commit :: "connection \<Rightarrow> connection" where
  "commit c = c\<lparr>committed := working c\<rparr>"

record import_state =
  conn :: connection
  inserted :: nat
  out :: "message list"

text \<open>
  The loop over the genres of one row (lines 185-190). It stops at the first statement
  that raises and hands back the store as the statements before it left it.
\<close>

fun link_genres :: "database \<Rightarrow> int \<Rightarrow> pystr list \<Rightarrow> database \<times> exn option" where
  "link_genres db aid [] = (db, None)"
| "link_genres db aid (genre # rest) =
    (case insert_genre db genre of
       Inl e \<Rightarrow> (db, Some e)
     | Inr db1 \<Rightarrow>
         (case select_genre db1 genre of
            Inl e \<Rightarrow> (db1, Some e)
          | Inr None \<Rightarrow> link_genres db1 aid rest
          | Inr (Some gid) \<Rightarrow>
              (case insert_link db1 aid gid of
                 Inl e \<Rightarrow> (db1, Some e)
               | Inr db2 \<Rightarrow> link_genres db2 aid rest)))"

definition mal_id_cell :: "platform \<Rightarrow> (pystr \<times> pystr) list \<Rightarrow> row_dict \<Rightarrow> pystr" where
  "mal_id_cell P fm row = strip (g P fm row [pys ''mal_id'', pys ''mal id'', pys ''id''])"

text \<open>
  The parameters of the \<open>INSERT\<close> into \<open>Anime\<close> (lines 168-178). They are computed before
  the statement runs, so an exception of \<open>parse_episodes\<close> is raised before anything is
  written.
\<close>

definition anime_of_row ::
  "platform \<Rightarrow> (pystr \<times> pystr) list \<Rightarrow> row_dict \<Rightarrow> int \<Rightarrow> exn + anime_row"
where
  "anime_of_row P fm row mal =
    (case parse_episodes P (g P fm row [pys ''episodes'', pys ''eps'']) of
       Inl e \<Rightarrow> Inl e
     | Inr eps \<Rightarrow>
         Inr \<lparr>a_id = 0, a_mal_id = mal,
              a_image = g P fm row [pys ''image''],
              a_title = g P fm row [pys ''title'', pys ''name''],
              a_release_date = g P fm row [pys ''release'', pys ''release_date'', pys ''aired''],
              a_synopsis = g P fm row [pys ''synopsis'', pys ''description''],
              a_score = parse_score P (g P fm row [pys ''score'', pys ''rating'']),
              a_episodes = eps,
              a_studio = g P fm row [pys ''studio'', pys ''studios''],
              a_theme = g P fm row [pys ''theme'', pys ''themes'']\<rparr>)"

text \<open>
  The body of the loop for row number \<open>i\<close> (lines 157-199). The two \<open>continue\<close>
  statements leave the state as it is. An exception inside the \<open>try\<close> adds a line to the
  output; the store keeps what the statements before the exception did, since nothing
  rolls it back.
\<close>

definition import_row ::
  "platform \<Rightarrow> (pystr \<times> pystr) list \<Rightarrow> pystr list \<Rightarrow> nat \<Rightarrow> pystr list \<Rightarrow> import_state \<Rightarrow> import_state"
where
  "import_row P fm fieldnames i rec st =
    (let row = dict_row fieldnames rec;
         raw_mid = mal_id_cell P fm row
     in if raw_mid = [] then st
        else (case int_of_float_str P raw_mid of
           None \<Rightarrow> st
         | Some mal \<Rightarrow>
             (case (case anime_of_row P fm row mal of
                      Inl e \<Rightarrow> Inl e
                    | Inr r \<Rightarrow> insert_anime (working (conn st)) r) of
                Inl e \<Rightarrow> st\<lparr>out := out st @ [RowSkipped i e]\<rparr>
              | Inr db1 \<Rightarrow>
                  (case link_genres db1 (anime_seq db1)
                          (parse_genres P (g P fm row [pys ''genre'', pys ''genres''])) of
                     (db2, Some e) \<Rightarrow>
                       st\<lparr>conn := (conn st)\<lparr>working := db2\<rparr>, out := out st @ [RowSkipped i e]\<rparr>
                   | (db2, None) \<Rightarrow>
                       if Suc (inserted st) mod 500 = 0
                       then st\<lparr>conn := commit ((conn st)\<lparr>working := db2\<rparr>),
                              inserted := Suc (inserted st),
                              out := out st @ [Inserted (Suc (inserted st))]\<rparr>
                       else st\<lparr>conn := (conn st)\<lparr>working := db2\<rparr>,
                              inserted := Suc (inserted st)\<rparr>))))"

fun import_rows ::
  "platform \<Rightarrow> (pystr \<times> pystr) list \<Rightarrow> pystr list \<Rightarrow> nat \<Rightarrow> pystr list list \<Rightarrow> import_state \<Rightarrow> import_state"
where
  "import_rows P fm fieldnames i [] st = st"
| "import_rows P fm fieldnames i (rec # rest) st =
    import_rows P fm fieldnames (Suc i) rest (import_row P fm fieldnames i rec st)"

text \<open>
  \<open>import_csv_to_db\<close> (lines 118-205). The schema is created and committed before the
  input is opened. Opening a missing file raises; an empty file has no \<open>fieldnames\<close>, so
  the comprehension of line 143 raises \<open>TypeError\<close>. Both exceptions leave the function,
  and the store keeps what was committed. \<open>persisted\<close> is the store after the run.
\<close>

record run_result =
  persisted :: database
  printed :: "message list"
  raised :: "exn option"

definition import_csv_to_db ::
  "platform \<Rightarrow> pystr \<Rightarrow> pystr \<Rightarrow> csv_source \<Rightarrow> database \<Rightarrow> run_result"
where
  "import_csv_to_db P csv_path db_path src db0 =
    (let out0 = [PrintCsv csv_path, PrintDb db_path];
         conn0 = commit \<lparr>committed = create_schema db0, working = create_schema db0\<rparr>
     in case src of
          Unreadable e \<Rightarrow> \<lparr>persisted = committed conn0, printed = out0, raised = Some e\<rparr>
        | Readable [] \<Rightarrow> \<lparr>persisted = committed conn0, printed = out0, raised = Some TypeError\<rparr>
        | Readable (fieldnames # body) \<Rightarrow>
            let fm = field_map P fieldnames;
                st = import_rows P fm fieldnames 1 (filter (\<lambda>r. r \<noteq> []) body)
                       \<lparr>conn = conn0, inserted = 0,
                        out = out0 @ DetectedColumns # map (\<lambda>kv. Column (fst kv)) fm\<rparr>;
                c = commit (conn st)
            in \<lparr>persisted = committed c,
                printed = out st @ [ImportComplete, RowsInAnime (length (Anime (working c)))],
                raised = None\<rparr>)"

text \<open>
  A platform for running the model on ASCII input: there \<open>ascii_lower\<close> is \<open>str.lower\<close>
  and no other digit is needed. Its \<open>obj_str\<close> is not consulted for the inputs used below,
  whose decoded genre lists hold strings only. The limit on the digits of an \<open>int\<close> is the
  default of Python 3.11 and later.
\<close>

definition ascii_platform :: platform where
  "ascii_platform = \<lparr>str_lower = ascii_lower, todecimal = (\<lambda>c. None), obj_str = (\<lambda>x. []),
     int_max_str_digits = 4300\<rparr>"


section \<open>Running the model\<close>

lemmas float_eval = pys_def isspace_def isdigit_def digits_val_def number_exp_def binary64_def
  c_isspace_def ascii_lower_def parse_inf_or_nan_def parse_decimal_def py_float_def py_int_def
  int_of_float_str_def first_digit_run_def int_of_digits_def is_decimal_def decimal_value_def
  exponent_val_def parse_episodes_def parse_score_def too_many_digits_def Let_def

lemmas import_eval = strip_def dict_row_def field_map_def mal_id_cell_def anime_of_row_def
  check_int_def check_text_def first_error_def store_real_def insert_anime_def insert_genre_def
  select_genre_def insert_link_def List.map_filter_def commit_def create_schema_def
  import_row_def import_csv_to_db_def ascii_platform_def

text \<open>A store with the three tables empty, and one that a previous import has filled.\<close>

definition empty_store :: database where
  "empty_store = \<lparr>Anime = [], Genres = [], AnimeGenres = [], anime_seq = 0, genre_seq = 0\<rparr>"

definition old_store :: database where
  "old_store =
    \<lparr>Anime = [\<lparr>a_id = 1, a_mal_id = 20, a_image = [], a_title = pys ''Naruto'',
        a_release_date = [], a_synopsis = [], a_score = None, a_episodes = Some 220,
        a_studio = [], a_theme = []\<rparr>],
     Genres = [(1, pys ''Action'')], AnimeGenres = [(1, 1)], anime_seq = 1, genre_seq = 1\<rparr>"


section \<open>The import driver: input that cannot be read\<close>

text \<open>
  Claim C1, as stated, fails: the schema is dropped, created and committed (lines 122-125)
  before the input is opened (line 139). With the input missing, the store that held one
  anime, one genre and one link is not what the run leaves behind; the same with an input
  that is empty.
\<close>

theorem missing_input_changes_store:
  "persisted (import_csv_to_db ascii_platform (pys ''anime.csv'') (pys ''anime.db'')
      (Unreadable FileNotFoundError) old_store) \<noteq> old_store
   \<and> persisted (import_csv_to_db ascii_platform (pys ''anime.csv'') (pys ''anime.db'')
      (Readable []) old_store) \<noteq> old_store"
  by (simp add: import_csv_to_db_def create_schema_def commit_def old_store_def)

text \<open>
  Claim C1, amended. If the input cannot be opened, or is empty, the run ends with the
  exception (the one of \<open>open\<close>, or \<open>TypeError\<close> for the missing header row) after printing
  the two paths only: no row is processed and nothing is inserted. But the store has been
  reset by then: whatever it held, its three tables are left empty.
\<close>

theorem unreadable_input_aborts_after_reset:
  "import_csv_to_db P csv_path db_path (Unreadable e) db0 =
     \<lparr>persisted = empty_store, printed = [PrintCsv csv_path, PrintDb db_path], raised = Some e\<rparr>
   \<and> import_csv_to_db P csv_path db_path (Readable []) db0 =
     \<lparr>persisted = empty_store, printed = [PrintCsv csv_path, PrintDb db_path],
      raised = Some TypeError\<rparr>"
  by (simp add: import_csv_to_db_def create_schema_def commit_def empty_store_def)


section \<open>The import driver: rows without a usable external id\<close>

text \<open>
  Claim C4, as stated, fails in one part: such a row is skipped, but nothing is printed
  for it. An input with a row whose id is blank and a row whose id is \<open>abc\<close> prints the
  paths, the columns and the final count, and no line about either row.
\<close>

theorem bad_id_rows_print_nothing:
  "printed (import_csv_to_db ascii_platform (pys ''anime.csv'') (pys ''anime.db'')
      (Readable [[pys ''mal_id'', pys ''title''],
                 [[], pys ''Naruto''],
                 [pys ''abc'', pys ''Bleach'']]) empty_store)
   = [PrintCsv (pys ''anime.csv''), PrintDb (pys ''anime.db''), DetectedColumns,
      Column (pys ''mal_id''), Column (pys ''title''), ImportComplete, RowsInAnime 0]"
  by (simp add: import_eval float_eval empty_store_def)

text \<open>
  Claim C4, amended. A row whose external-id cell is empty after trimming, or for which
  \<open>int(float(...))\<close> raises, leaves the whole state of the import as it was: no row of
  \<open>Anime\<close>, \<open>Genres\<close> or \<open>AnimeGenres\<close> is written, the counter of inserted rows and the
  output are unchanged (the skip is silent), and the loop goes on with the next row.
\<close>

theorem bad_id_row_is_skipped:
  assumes "mal_id_cell P fm (dict_row fieldnames rec) = []
         \<or> int_of_float_str P (mal_id_cell P fm (dict_row fieldnames rec)) = None"
  shows "import_row P fm fieldnames i rec st = st
       \<and> import_rows P fm fieldnames i (rec # rest) st = import_rows P fm fieldnames (Suc i) rest st"
proof -
  from assms have "import_row P fm fieldnames i rec st = st"
    by (auto simp: import_row_def Let_def)
  then show ?thesis by simp
qed

theorem bad_id_row_is_skipped_witness:
  "(mal_id_cell ascii_platform [(pys ''mal_id'', pys ''mal_id'')]
        (dict_row [pys ''mal_id''] [pys ''abc'']) = []
      \<or> int_of_float_str ascii_platform (mal_id_cell ascii_platform [(pys ''mal_id'', pys ''mal_id'')]
        (dict_row [pys ''mal_id''] [pys ''abc''])) = None)
   \<and> import_row ascii_platform [(pys ''mal_id'', pys ''mal_id'')] [pys ''mal_id''] 1 [pys ''abc'']
        \<lparr>conn = \<lparr>committed = empty_store, working = empty_store\<rparr>, inserted = 0, out = []\<rparr>
      = \<lparr>conn = \<lparr>committed = empty_store, working = empty_store\<rparr>, inserted = 0, out = []\<rparr>"
proof -
  have h: "mal_id_cell ascii_platform [(pys ''mal_id'', pys ''mal_id'')]
        (dict_row [pys ''mal_id''] [pys ''abc'']) = []
      \<or> int_of_float_str ascii_platform (mal_id_cell ascii_platform [(pys ''mal_id'', pys ''mal_id'')]
        (dict_row [pys ''mal_id''] [pys ''abc''])) = None"
    by (simp add: import_eval float_eval)
  from bad_id_row_is_skipped [OF h, of 1
      "\<lparr>conn = \<lparr>committed = empty_store, working = empty_store\<rparr>, inserted = 0, out = []\<rparr>" "[]"] h
  show ?thesis by blast
qed


section \<open>The import driver: a row that raises\<close>

text \<open>
  The genre cell \<open>["Action", "\ud800"]\<close>: a JSON list whose second string is an escaped
  lone surrogate.
\<close>

definition surrogate_cell :: pystr where
  "surrogate_cell = pys ''['' @ [34] @ pys ''Action'' @ [34] @ pys '', '' @ [34, 92]
     @ pys ''ud800'' @ [34] @ pys '']''"

lemma parse_genres_surrogate_cell:
  "parse_genres P surrogate_cell = [pys ''Action'', [55296]]"
  by (simp add: surrogate_cell_def json_eval)

text \<open>
  Claim C2 does not hold of the code. The row below has a numeric id; \<open>json.loads\<close>
  decodes its genre cell to \<open>Action\<close> and a lone surrogate; binding the surrogate raises
  \<open>UnicodeEncodeError\<close> in the second turn of the genre loop, after the row of \<open>Anime\<close>,
  the genre \<open>Action\<close> and their link were written. The exception is caught and the row is
  reported as skipped, with its number 1, and the loop would go on; but nothing undoes the
  three writes, and the final commit persists them.
\<close>

theorem skipped_row_leaves_partial_data:
  "import_csv_to_db ascii_platform (pys ''anime.csv'') (pys ''anime.db'')
      (Readable [[pys ''mal_id'', pys ''title'', pys ''genres''],
                 [pys ''1'', pys ''Naruto'', surrogate_cell]]) empty_store
   = \<lparr>persisted =
        \<lparr>Anime = [\<lparr>a_id = 1, a_mal_id = 1, a_image = [], a_title = pys ''Naruto'',
            a_release_date = [], a_synopsis = [], a_score = None, a_episodes = None,
            a_studio = [], a_theme = []\<rparr>],
         Genres = [(1, pys ''Action'')], AnimeGenres = [(1, 1)],
         anime_seq = 1, genre_seq = 1\<rparr>,
      printed = [PrintCsv (pys ''anime.csv''), PrintDb (pys ''anime.db''), DetectedColumns,
         Column (pys ''mal_id''), Column (pys ''title''), Column (pys ''genres''),
         RowSkipped 1 UnicodeEncodeError, ImportComplete, RowsInAnime 1],
      raised = None\<rparr>"
  by (simp add: parse_genres_surrogate_cell import_eval float_eval empty_store_def)


section \<open>Genres are stored once\<close>

text \<open>
  What holds of the store at every point of an import: no two rows of \<open>Genres\<close> carry
  the same name (names compared code point by code point) or the same key, the keys in
  use are at most the counters, no link is stored twice, and every link references a
  genre that exists.
\<close>

definition store_ok :: "database \<Rightarrow> bool" where
  "store_ok db =
    (distinct (map snd (Genres db)) \<and> distinct (map fst (Genres db))
     \<and> list_all (\<lambda>g. fst g \<le> genre_seq db) (Genres db)
     \<and> distinct (AnimeGenres db)
     \<and> list_all (\<lambda>l. fst l \<le> anime_seq db \<and> snd l \<in> set (map fst (Genres db)))
          (AnimeGenres db))"

lemma store_ok_create_schema: "store_ok (create_schema db0)"
  by (simp add: store_ok_def create_schema_def)
























lemma import_row_out: "\<exists>ms. out (import_row P fm fieldnames i rec st) = out st @ ms"
  by (simp add: import_row_def Let_def split: option.splits sum.splits prod.splits)

lemma import_rows_out: "\<exists>ms. out (import_rows P fm fieldnames i recs st) = out st @ ms"
proof (induction recs arbitrary: i st)
  case Nil
  then show ?case by simp
next
  case (Cons rec rest)
  from Cons.IH [of "Suc i" "import_row P fm fieldnames i rec st"]
    import_row_out [of P fm fieldnames i rec st]
  show ?case by auto
qed




















section \<open>Links are stored once\<close>

lemma count_list_distinct: "distinct xs \<Longrightarrow> x \<in> set xs \<Longrightarrow> count_list xs x = 1"
  by (induction xs) auto

text \<open>
  Claim C7. In a store whose link table has no pair twice (what its primary key
  guarantees), an insert of a link that succeeds leaves the pair there exactly once, and
  the same insert again succeeds too and changes nothing.
\<close>

theorem insert_link_idempotent:
  assumes "distinct (AnimeGenres db)" and "insert_link db aid gid = Inr db1"
  shows "insert_link db1 aid gid = Inr db1
       \<and> count_list (AnimeGenres db1) (aid, gid) = 1
       \<and> distinct (AnimeGenres db1)"
proof -
  from assms(2) have ok: "first_error [check_int aid, check_int gid] = None"
    by (auto simp: insert_link_def split: option.splits)
  from assms(2) have mem: "(aid, gid) \<in> set (AnimeGenres db1)"
    by (auto simp: insert_link_def split: option.splits if_splits)
  from assms have d: "distinct (AnimeGenres db1)"
    by (auto simp: insert_link_def split: option.splits if_splits)
  from ok mem have "insert_link db1 aid gid = Inr db1"
    by (simp add: insert_link_def)
  moreover from d mem have "count_list (AnimeGenres db1) (aid, gid) = 1"
    by (rule count_list_distinct)
  ultimately show ?thesis using d by simp
qed

theorem insert_link_idempotent_witness:
  "distinct (AnimeGenres (old_store\<lparr>AnimeGenres := []\<rparr>))
   \<and> insert_link (old_store\<lparr>AnimeGenres := []\<rparr>) 1 1 = Inr old_store
   \<and> insert_link old_store 1 1 = Inr old_store
   \<and> count_list (AnimeGenres old_store) (1, 1) = 1"
proof -
  have h1: "distinct (AnimeGenres (old_store\<lparr>AnimeGenres := []\<rparr>))" by simp
  have h2: "insert_link (old_store\<lparr>AnimeGenres := []\<rparr>) 1 1 = Inr old_store"
    by (simp add: import_eval old_store_def)
  from insert_link_idempotent [OF h1 h2] h1 h2 show ?thesis by simp
qed


section \<open>add-images.py: paths\<close>

text \<open>
  A \<open>pathlib\<close> path: its anchor (drive and root) and the components after it. The last
  component is the \<open>name\<close>; a path without components has the empty name. \<open>suffix\<close> and
  \<open>stem\<close> split the name at its last dot, unless that dot is the first or the last
  character of the name.
\<close>

record path =
  anchor :: pystr
  parts :: "pystr list"

definition path_name :: "path \<Rightarrow> pystr" where
  "path_name p = (if parts p = [] then [] else last (parts p))"

text \<open>\<open>s.rfind(c)\<close>: the index of the last \<open>c\<close> in \<open>s\<close>, \<open>None\<close> for Python's \<open>-1\<close>.\<close>

fun rfind :: "nat \<Rightarrow> pystr \<Rightarrow> nat option" where
  "rfind c [] = None"
| "rfind c (x # xs) = (case rfind c xs of
      Some i \<Rightarrow> Some (Suc i)
    | None \<Rightarrow> if x = c then Some 0 else None)"

definition suffix :: "pystr \<Rightarrow> pystr" where
  "suffix name = (case rfind 46 name of
      None \<Rightarrow> []
    | Some i \<Rightarrow> if 0 < i \<and> i + 1 < length name then drop i name else [])"

definition stem :: "pystr \<Rightarrow> pystr" where
  "stem name = (case rfind 46 name of
      None \<Rightarrow> name
    | Some i \<Rightarrow> if 0 < i \<and> i + 1 < length name then take i name else name)"

text \<open>
  \<open>with_name\<close> and \<open>with_suffix\<close> raise \<open>ValueError\<close> for a path with an empty name and for
  an invalid new name or suffix (code point 47 is the separator, 46 the dot).
\<close>

definition with_name :: "path \<Rightarrow> pystr \<Rightarrow> exn + path" where
  "with_name p name =
    (if path_name p = [] then Inl ValueError
     else if name = [] \<or> 47 \<in> set name \<or> name = [46] then Inl ValueError
     else Inr (p\<lparr>parts := butlast (parts p) @ [name]\<rparr>))"

definition with_suffix :: "path \<Rightarrow> pystr \<Rightarrow> exn + path" where
  "with_suffix p sfx =
    (if 47 \<in> set sfx then Inl ValueError
     else if (sfx \<noteq> [] \<and> hd sfx \<noteq> 46) \<or> sfx = [46] then Inl ValueError
     else if path_name p = [] then Inl ValueError
     else
       let name = path_name p;
           old = suffix name;
           name' = (if old = [] then name @ sfx
                    else take (length name - length old) name @ sfx)
       in Inr (p\<lparr>parts := butlast (parts p) @ [name']\<rparr>))"


section \<open>add-images.py: the enricher\<close>

text \<open>
  \<open>insert_column_after\<close> (lines 82-88).
\<close>

definition insert_column_after :: "pystr list \<Rightarrow> pystr \<Rightarrow> pystr \<Rightarrow> pystr list" where
  "insert_column_after headers after_col new_col =
    (if after_col \<notin> set headers then new_col # headers
     else
       let idx = length (takeWhile (\<lambda>h. h \<noteq> after_col) headers)
       in take (idx + 1) headers @ [new_col] @ drop (idx + 1) headers)"

text \<open>
  The file system maps a path to the records of the CSV file there. (How the file is
  decoded is not modelled: the script reads its input as \<open>utf-8-sig\<close> but reads the file it
  resumes from as \<open>utf-8\<close>, which keeps a byte order mark in the first header.)

  The remote lookup is a parameter: \<open>remote n mal_id\<close> is what the \<open>n\<close>-th request of the
  run, for \<open>mal_id\<close>, yields: the image URL, or \<open>None\<close> for a response that is not 200, for
  an exception, and for a missing URL. \<open>fetch_image_url\<close> (lines 62-79) issues no request
  for an empty id. The list of requests issued is part of the state; the line that
  \<open>fetch_image_url\<close> prints for an exception is left out.
\<close>

type_synonym file_system = "path \<Rightarrow> pystr list list option"

definition fetch_image_url ::
  "(nat \<Rightarrow> pystr \<Rightarrow> pystr option) \<Rightarrow> pystr list \<Rightarrow> pystr \<Rightarrow> pystr option \<times> pystr list"
where
  "fetch_image_url remote reqs mal_id =
    (if mal_id = [] then (None, reqs) else (remote (length reqs) mal_id, reqs @ [mal_id]))"

text \<open>
  \<open>already_done\<close> (lines 113-121): for each row of the existing output whose \<open>MAL_ID\<close>
  cell is not empty, the cell as it stands is the key and the \<open>image\<close> cell the value
  (\<open>None\<close> when the row has no such cell); a later row of the same key wins.
\<close>

definition row_get :: "row_dict \<Rightarrow> pystr \<Rightarrow> pystr option" where
  "row_get row k = (case map_of row k of Some (Some v) \<Rightarrow> Some v | _ \<Rightarrow> None)"

definition load_already_done :: "pystr list list \<Rightarrow> (pystr \<times> pystr option) list" where
  "load_already_done recs = (case recs of
      [] \<Rightarrow> []
    | fieldnames # body \<Rightarrow>
        fold (\<lambda>rec d.
               (case row_get (dict_row fieldnames rec) (pys ''MAL_ID'') of
                  None \<Rightarrow> d
                | Some mid \<Rightarrow>
                    if mid \<noteq> [] then AList.update mid (row_get (dict_row fieldnames rec) (pys ''image'')) d
                    else d))
             (filter (\<lambda>r. r \<noteq> []) body) [])"

datatype notice = InputNotFound | InputEmpty | FoundExisting path | SavedProgress nat
  | AllDone path

record enrich_state =
  written :: "pystr list list"
  requests :: "pystr list"
  rows_processed :: nat
  progress :: "notice list"

text \<open>
  The body of the loop (lines 137-163). The id that is looked up in \<open>already_done\<close> and
  sent to the remote service is the \<open>MAL_ID\<close> cell, trimmed; \<open>str\<close> of the \<open>None\<close> of a short
  row is \<open>None\<close>.
\<close>

definition enrich_row ::
  "(nat \<Rightarrow> pystr \<Rightarrow> pystr option) \<Rightarrow> (pystr \<times> pystr option) list \<Rightarrow> pystr list \<Rightarrow> pystr list
    \<Rightarrow> pystr list \<Rightarrow> enrich_state \<Rightarrow> enrich_state"
where
  "enrich_row remote already_done out_headers fieldnames rec st =
    (let row = dict_row fieldnames rec;
         mal_id = strip (case map_of row (pys ''MAL_ID'') of
                           None \<Rightarrow> []
                         | Some None \<Rightarrow> pys ''None''
                         | Some (Some v) \<Rightarrow> v);
         reused = (case map_of already_done mal_id of None \<Rightarrow> None | Some v \<Rightarrow> v);
         fetched = (if reused = None \<or> reused = Some []
                    then fetch_image_url remote (requests st) mal_id
                    else (reused, requests st));
         new_row = map (\<lambda>col. if col = pys ''image''
                               then (case fst fetched of None \<Rightarrow> [] | Some url \<Rightarrow> url)
                               else (case row_get row col of None \<Rightarrow> [] | Some v \<Rightarrow> v))
                       out_headers
     in st\<lparr>written := written st @ [new_row],
           requests := snd fetched,
           rows_processed := Suc (rows_processed st),
           progress := (if Suc (rows_processed st) mod 50 = 0
                     then progress st @ [SavedProgress (Suc (rows_processed st))]
                     else progress st)\<rparr>)"

definition enrich_rows ::
  "(nat \<Rightarrow> pystr \<Rightarrow> pystr option) \<Rightarrow> (pystr \<times> pystr option) list \<Rightarrow> pystr list \<Rightarrow> pystr list
    \<Rightarrow> pystr list list \<Rightarrow> enrich_state"
where
  "enrich_rows remote already_done out_headers fieldnames body =
    fold (enrich_row remote already_done out_headers fieldnames) (filter (\<lambda>r. r \<noteq> []) body)
      \<lparr>written = [], requests = [], rows_processed = 0, progress = []\<rparr>"

text \<open>
  \<open>main\<close> (lines 91-167). The result is the file system after the run, the requests that
  were sent, what was printed, and the exception if one left the function.
\<close>

record enrich_result =
  files_after :: file_system
  requested :: "pystr list"
  notices :: "notice list"
  failed :: "exn option"

definition main :: "(nat \<Rightarrow> pystr \<Rightarrow> pystr option) \<Rightarrow> file_system \<Rightarrow> path \<Rightarrow> enrich_result" where
  "main remote fs in_path =
    (case fs in_path of
       None \<Rightarrow> \<lparr>files_after = fs, requested = [], notices = [InputNotFound], failed = None\<rparr>
     | Some recs \<Rightarrow>
         (case with_name in_path (stem (path_name in_path) @ suffix (path_name in_path)) of
            Inl e \<Rightarrow> \<lparr>files_after = fs, requested = [], notices = [], failed = Some e\<rparr>
          | Inr out_path \<Rightarrow>
              (case recs of
                 [] \<Rightarrow> \<lparr>files_after = fs, requested = [], notices = [InputEmpty], failed = None\<rparr>
               | headers # body \<Rightarrow>
                   let out_headers = insert_column_after headers (pys ''MAL_ID'') (pys ''image'');
                       already_done = (case fs out_path of
                                         None \<Rightarrow> []
                                       | Some old \<Rightarrow> load_already_done old);
                       found = (case fs out_path of
                                  None \<Rightarrow> []
                                | Some old \<Rightarrow> [FoundExisting out_path])
                   in (case with_suffix out_path (suffix (path_name out_path) @ pys ''.tmp'') of
                         Inl e \<Rightarrow> \<lparr>files_after = fs, requested = [], notices = found,
                                    failed = Some e\<rparr>
                       | Inr temp_path \<Rightarrow>
                           let st = enrich_rows remote already_done out_headers headers body
                           in \<lparr>files_after = (fs(temp_path := None))
                                   (out_path := Some (out_headers # written st)),
                                requested = requests st,
                                notices = found @ progress st @ [AllDone out_path],
                                failed = None\<rparr>))))"


section \<open>The enricher writes over its input\<close>

lemma rfind_Some: "rfind c s = Some i \<Longrightarrow> i < length s \<and> s ! i = c"
  by (induction s arbitrary: i) (auto split: option.splits if_splits)

lemma stem_suffix: "stem name @ suffix name = name"
  by (simp add: stem_def suffix_def split: option.splits)

lemma suffix_in_name: "set (suffix name) \<subseteq> set name"
  by (auto simp: suffix_def split: option.splits if_splits dest: in_set_dropD)

lemma suffix_dot: "suffix name \<noteq> [] \<Longrightarrow> hd (suffix name) = 46"
  by (auto simp: suffix_def hd_drop_conv_nth split: option.splits if_splits dest: rfind_Some)

lemma suffix_cut: "take (length name - length (suffix name)) name @ suffix name = name"
  by (auto simp: suffix_def split: option.splits if_splits dest: rfind_Some)

text \<open>A path whose last component can be the name of a file.\<close>

definition file_path :: "path \<Rightarrow> bool" where
  "file_path p = (parts p \<noteq> [] \<and> last (parts p) \<noteq> [] \<and> 47 \<notin> set (last (parts p))
     \<and> last (parts p) \<noteq> [46])"

definition temp_of :: "path \<Rightarrow> path" where
  "temp_of p = p\<lparr>parts := butlast (parts p) @ [path_name p @ pys ''.tmp'']\<rparr>"

lemma out_path_is_in_path:
  "file_path p \<Longrightarrow> with_name p (stem (path_name p) @ suffix (path_name p)) = Inr p"
  by (simp add: with_name_def stem_suffix path_name_def file_path_def)

lemma temp_path_is_temp_of:
  assumes "file_path p"
  shows "with_suffix p (suffix (path_name p) @ pys ''.tmp'') = Inr (temp_of p)"
proof -
  let ?n = "path_name p"
  from assms have n: "?n \<noteq> []" "47 \<notin> set ?n"
    by (simp_all add: path_name_def file_path_def)
  from n(2) suffix_in_name [of ?n] have s1: "47 \<notin> set (suffix ?n)" by blast
  have s2: "47 \<notin> set (pys ''.tmp'')" by (simp add: pys_def)
  have s3: "hd (suffix ?n @ pys ''.tmp'') = 46"
    using suffix_dot [of ?n] by (cases "suffix ?n = []") (simp_all add: pys_def)
  have s4: "suffix ?n @ pys ''.tmp'' \<noteq> [46]" by (simp add: pys_def append_eq_Cons_conv)
  have s5: "suffix ?n @ pys ''.tmp'' \<noteq> []" by (simp add: pys_def)
  have cut: "take (length ?n - length (suffix ?n)) ?n @ suffix ?n @ pys ''.tmp'' = ?n @ pys ''.tmp''"
    using suffix_cut [of ?n] by (metis append.assoc)
  show ?thesis
    unfolding with_suffix_def Let_def temp_of_def
    using n s1 s2 s3 s4 s5 cut by auto
qed

lemma temp_of_differs: "file_path p \<Longrightarrow> temp_of p \<noteq> p"
proof
  assume fp: "file_path p" and "temp_of p = p"
  then have "parts (temp_of p) = parts p" by simp
  then have "butlast (parts p) @ [path_name p @ pys ''.tmp''] = butlast (parts p) @ [last (parts p)]"
    using fp by (simp add: temp_of_def file_path_def)
  then show False using fp by (simp add: path_name_def file_path_def pys_def)
qed

lemma main_on_file:
  assumes "file_path p" and "fs p = Some (headers # body)"
  shows "main remote fs p =
           \<lparr>files_after = (fs(temp_of p := None))
              (p := Some (insert_column_after headers (pys ''MAL_ID'') (pys ''image'')
                 # written (enrich_rows remote (load_already_done (headers # body))
                      (insert_column_after headers (pys ''MAL_ID'') (pys ''image'')) headers body))),
            requested = requests (enrich_rows remote (load_already_done (headers # body))
               (insert_column_after headers (pys ''MAL_ID'') (pys ''image'')) headers body),
            notices = FoundExisting p # progress (enrich_rows remote (load_already_done (headers # body))
               (insert_column_after headers (pys ''MAL_ID'') (pys ''image'')) headers body)
               @ [AllDone p],
            failed = None\<rparr>"
  unfolding main_def
  by (simp add: assms(2) out_path_is_in_path [OF assms(1)] temp_path_is_temp_of [OF assms(1)]
      Let_def)

text \<open>
  Claim C3. For an input path whose last component is a file name, the output path that
  line 97 derives is the input path itself. So, when the input exists and has a header
  row, the file consulted for resumption is the input file (it is always found, and
  \<open>already_done\<close> is loaded from the very records that are then enriched), and on
  completion the temporary file, the input's name with \<open>.tmp\<close> appended, is gone and the
  enriched records stand at the input path.
\<close>

theorem output_path_is_input_path:
  assumes "file_path p" and "fs p = Some (headers # body)"
  shows "with_name p (stem (path_name p) @ suffix (path_name p)) = Inr p
       \<and> main remote fs p =
           \<lparr>files_after = (fs(temp_of p := None))
              (p := Some (insert_column_after headers (pys ''MAL_ID'') (pys ''image'')
                 # written (enrich_rows remote (load_already_done (headers # body))
                      (insert_column_after headers (pys ''MAL_ID'') (pys ''image'')) headers body))),
            requested = requests (enrich_rows remote (load_already_done (headers # body))
               (insert_column_after headers (pys ''MAL_ID'') (pys ''image'')) headers body),
            notices = FoundExisting p # progress (enrich_rows remote (load_already_done (headers # body))
               (insert_column_after headers (pys ''MAL_ID'') (pys ''image'')) headers body)
               @ [AllDone p],
            failed = None\<rparr>
       \<and> files_after (main remote fs p) (temp_of p) = None
       \<and> files_after (main remote fs p) p \<noteq> None"
proof -
  note m = main_on_file [where p = p and fs = fs and remote = remote, OF assms]
  from temp_of_differs [OF assms(1)] show ?thesis
    by (simp add: m out_path_is_in_path [OF assms(1)])
qed

definition anime_csv :: path where
  "anime_csv = \<lparr>anchor = [], parts = [pys ''data'', pys ''anime.csv'']\<rparr>"

lemmas enrich_eval = strip_def isspace_def pys_def dict_row_def row_get_def
  load_already_done_def fetch_image_url_def enrich_row_def enrich_rows_def
  insert_column_after_def Let_def

theorem output_path_is_input_path_witness:
  "file_path anime_csv
   \<and> with_name anime_csv (stem (path_name anime_csv) @ suffix (path_name anime_csv)) = Inr anime_csv
   \<and> files_after (main (\<lambda>n i. None)
        ((\<lambda>q. None)(anime_csv := Some [[pys ''MAL_ID'', pys ''title''], [pys ''5'', pys ''Naruto'']]))
        anime_csv) (temp_of anime_csv) = None
   \<and> files_after (main (\<lambda>n i. None)
        ((\<lambda>q. None)(anime_csv := Some [[pys ''MAL_ID'', pys ''title''], [pys ''5'', pys ''Naruto'']]))
        anime_csv) anime_csv \<noteq> None"
proof -
  have h1: "file_path anime_csv"
    by (simp add: file_path_def anime_csv_def pys_def)
  have h2: "((\<lambda>q. None)(anime_csv := Some [[pys ''MAL_ID'', pys ''title''], [pys ''5'', pys ''Naruto'']]))
      anime_csv = Some ([pys ''MAL_ID'', pys ''title''] # [[pys ''5'', pys ''Naruto'']])"
    by simp
  from output_path_is_input_path [where p = anime_csv and remote = "\<lambda>n i. None"
      and fs = "(\<lambda>q. None)(anime_csv := Some [[pys ''MAL_ID'', pys ''title''], [pys ''5'', pys ''Naruto'']])",
      OF h1 h2] h1
  show ?thesis by blast
qed


section \<open>Resuming the enricher\<close>

text \<open>
  What does hold: when the trimmed \<open>MAL_ID\<close> cell of a row is a key of \<open>already_done\<close> with
  a non-empty value, the row sends no request and is written with that value.
\<close>

lemma recorded_image_is_reused:
  assumes "map_of (dict_row fieldnames rec) (pys ''MAL_ID'') = Some (Some cell)"
    and "map_of already_done (strip cell) = Some (Some url)" and "url \<noteq> []"
  shows "requests (enrich_row remote already_done out_headers fieldnames rec st) = requests st
       \<and> written (enrich_row remote already_done out_headers fieldnames rec st)
           = written st @ [map (\<lambda>col. if col = pys ''image'' then url
                else (case row_get (dict_row fieldnames rec) col of None \<Rightarrow> [] | Some v \<Rightarrow> v))
              out_headers]"
  using assms by (simp add: enrich_row_def Let_def)

text \<open>
  Claim C9 does not hold of the code. The output of a prior run below records the image
  \<open>http://x/5.jpg\<close> for the row whose \<open>MAL_ID\<close> cell is \<open>5\<close> preceded by a space (the
  enricher copies the cell as it stands). \<open>already_done\<close> has the cell with its space as
  the key, the loop looks up the trimmed \<open>5\<close>, does not find it, and sends a request for
  id 5; the recorded value is replaced by whatever the request yields, the empty string if
  it fails.
\<close>

theorem padded_id_is_fetched_again:
  "requested (main remote
      ((\<lambda>q. None)(anime_csv := Some [[pys ''MAL_ID'', pys ''image'', pys ''title''],
                                     [pys '' 5'', pys ''http://x/5.jpg'', pys ''Naruto'']]))
      anime_csv) = [pys ''5'']
   \<and> files_after (main remote
      ((\<lambda>q. None)(anime_csv := Some [[pys ''MAL_ID'', pys ''image'', pys ''title''],
                                     [pys '' 5'', pys ''http://x/5.jpg'', pys ''Naruto'']]))
      anime_csv) anime_csv
     = Some [[pys ''MAL_ID'', pys ''image'', pys ''image'', pys ''title''],
             [pys '' 5'', (case remote 0 (pys ''5'') of None \<Rightarrow> [] | Some url \<Rightarrow> url),
              (case remote 0 (pys ''5'') of None \<Rightarrow> [] | Some url \<Rightarrow> url), pys ''Naruto'']]"
proof -
  have h1: "file_path anime_csv"
    by (simp add: file_path_def anime_csv_def pys_def)
  have h2: "((\<lambda>q. None)(anime_csv := Some [[pys ''MAL_ID'', pys ''image'', pys ''title''],
                                     [pys '' 5'', pys ''http://x/5.jpg'', pys ''Naruto'']]))
      anime_csv = Some ([pys ''MAL_ID'', pys ''image'', pys ''title'']
                   # [[pys '' 5'', pys ''http://x/5.jpg'', pys ''Naruto'']])"
    by simp
  note m = main_on_file [where p = anime_csv and remote = remote
      and fs = "(\<lambda>q. None)(anime_csv := Some [[pys ''MAL_ID'', pys ''image'', pys ''title''],
                                     [pys '' 5'', pys ''http://x/5.jpg'', pys ''Naruto'']])",
      OF h1 h2]
  show ?thesis
    by (simp only: m) (simp add: enrich_eval)
qed



end
